theory Spec2Isabelle
  imports Complex_Main
begin

section \<open>The EPH Controls Ember thermostat component (ephember/climate.py)\<close>

text \<open>
  The component decides from a zone snapshot of the vendor service whether the zone is
  heating, maps HVAC modes between the platform and the vendor, and forwards writes to
  the vendor client. A zone is a Python dictionary; the fields the code reads are the
  fields of the record \<open>zone\<close> below. Exceptions are values of \<open>error\<close>, and a function
  that can raise returns \<open>error + 'a\<close> with \<open>Inl\<close> for the exception.
\<close>

subsection \<open>Data\<close>

datatype ZoneMode = AUTO | ALL_DAY | ON | OFF

datatype error = KeyError | ValueError | TypeError

text \<open>
  Modelled from the spec: the platform's enumeration \<open>HVACMode\<close> is declared by the
  climate platform, outside this component. The spec names the three platform-level
  modes heat-cool, heat and off, which are the ones the component maps;
  \<open>HVACMode_other\<close> is any other platform mode, by its name.
\<close>

datatype HVACMode =
  HVACMode_HEAT_COOL | HVACMode_HEAT | HVACMode_OFF | HVACMode_other string

text \<open>A \<open>datetime.time\<close> built from an hour and a minute: the pair (hour, minute).\<close>

type_synonym time = "nat \<times> nat"

text \<open>
  One period of a day's programme is a dictionary with the keys \<open>starttime\<close> and
  \<open>endtime\<close>, a day's programme is a dictionary of periods (\<open>p1\<close>, \<open>p2\<close>, \<open>p3\<close>),
  and \<open>programmes\<close> maps the name of a weekday to its programme.
\<close>

type_synonym period = "string \<rightharpoonup> string"
type_synonym program = "string \<rightharpoonup> period"

record boost_activation =
  targettemperature :: "real option"
  numberofhours :: "int option"
  activatedon :: "int option"

text \<open>
  The fields \<open>zone_mode\<close>, \<open>zone_current_temperature\<close>, \<open>zone_target_temperature\<close>,
  \<open>zone_is_boost_active\<close>, \<open>zone_is_hot_water\<close> and \<open>zone_name\<close> are what the vendor
  library's accessors of the same names return for the zone; \<open>zone_mode\<close> is read as a
  member of the module's \<open>ZoneMode\<close>. Temperatures are only ever compared, never
  computed with, and are reals here. The other fields are keys of the dictionary, and
  \<open>None\<close> is an absent key. For \<open>timestamp\<close> (milliseconds since the epoch), \<open>None\<close>
  also stands for any value on which \<open>time.gmtime(zone['timestamp']/1000)\<close> raises.
\<close>

record zone =
  zone_mode :: ZoneMode
  zone_current_temperature :: real
  zone_target_temperature :: real
  zone_is_boost_active :: bool
  zone_is_hot_water :: bool
  zone_name :: string
  timestamp :: "int option"
  programmes :: "(string \<rightharpoonup> program) option"
  isadvanceactive :: "bool option"
  boostActivations :: "boost_activation option"

subsection \<open>Times of day\<close>

text \<open>\<open>d[k]\<close> on a dictionary: a missing key raises \<open>KeyError\<close>.\<close>

definition getitem :: "('k \<rightharpoonup> 'v) \<Rightarrow> 'k \<Rightarrow> error + 'v" where
  "getitem d k = (case d k of None \<Rightarrow> Inl KeyError | Some v \<Rightarrow> Inr v)"

definition is_digit :: "char \<Rightarrow> bool" where
  "is_digit c = (c \<in> set ''0123456789'')"

definition digit_val :: "char \<Rightarrow> nat" where
  "digit_val c = of_char c - 48"

text \<open>
  \<open>datetime.datetime.strptime(stime, '%H:%M').time()\<close>. The format compiles to the
  regular expression \<open>(2[0-3]|[0-1]\d|\d):([0-5]\d|\d)\<close>, matched at the start of the
  string; no match, or text left over after the match, raises \<open>ValueError\<close>.
  Strings are ASCII here, and a digit is one of 0 to 9. \<open>parse_minute\<close> reads the
  text after the colon.
\<close>

definition parse_minute :: "string \<Rightarrow> error + nat" where
  "parse_minute s =
     (case s of
        [a] \<Rightarrow> if is_digit a then Inr (digit_val a) else Inl ValueError
      | [a, b] \<Rightarrow>
          if is_digit a \<and> digit_val a \<le> 5 \<and> is_digit b
          then Inr (10 * digit_val a + digit_val b) else Inl ValueError
      | _ \<Rightarrow> Inl ValueError)"

definition scheduletime_to_time :: "string \<Rightarrow> error + time" where
  "scheduletime_to_time stime =
     (case stime of
        a # b # rest \<Rightarrow>
          if is_digit a \<and> b = CHR '':'' then
            (case parse_minute rest of Inl e \<Rightarrow> Inl e | Inr m \<Rightarrow> Inr (digit_val a, m))
          else if is_digit a \<and> is_digit b \<and> 10 * digit_val a + digit_val b \<le> 23
                  \<and> take 1 rest = '':'' then
            (case parse_minute (drop 1 rest) of
               Inl e \<Rightarrow> Inl e
             | Inr m \<Rightarrow> Inr (10 * digit_val a + digit_val b, m))
          else Inl ValueError
      | _ \<Rightarrow> Inl ValueError)"

text \<open>\<open>datetime.time\<close> values compare as (hour, minute) pairs, lexicographically.\<close>

definition time_le :: "time \<Rightarrow> time \<Rightarrow> bool" where
  "time_le a b = (fst a < fst b \<or> (fst a = fst b \<and> snd a \<le> snd b))"

text \<open>
  \<open>time.gmtime(secs)\<close>, of which the code keeps \<open>tm_hour\<close> and \<open>tm_min\<close>: the UTC
  time of day of a number of seconds since the epoch.
\<close>

definition gmtime_hm :: "int \<Rightarrow> time" where
  "gmtime_hm secs = (nat ((secs mod 86400) div 3600), nat ((secs mod 3600) div 60))"

text \<open>
  The \<open>try\<close>/\<open>except\<close> of \<open>zone_is_scheduled_on\<close>: the time of day of the zone's
  timestamp, and the system clock's (\<open>now\<close>, in seconds since the epoch) when reading the
  timestamp raises.
\<close>

definition zone_ts_time :: "int \<Rightarrow> zone \<Rightarrow> time" where
  "zone_ts_time now z =
     (case timestamp z of
        Some ms \<Rightarrow> gmtime_hm (ms div 1000)
      | None \<Rightarrow> gmtime_hm now)"

subsection \<open>The schedule\<close>

definition days :: "string list" where
  "days = [''monday'', ''tuesday'', ''wednesday'', ''thursday'', ''friday'',
           ''saturday'', ''sunday'']"

definition periods :: "string list" where
  "periods = [''p1'', ''p2'', ''p3'']"

text \<open>\<open>zone['programmes'][day]\<close>\<close>

definition zone_program :: "zone \<Rightarrow> string \<Rightarrow> error + program" where
  "zone_program z day =
     (case programmes z of None \<Rightarrow> Inl KeyError | Some ps \<Rightarrow> getitem ps day)"

text \<open>\<open>scheduletime_to_time(program[period][key])\<close>\<close>

definition period_time :: "program \<Rightarrow> string \<Rightarrow> string \<Rightarrow> error + time" where
  "period_time prog p key =
     (case getitem prog p of
        Inl e \<Rightarrow> Inl e
      | Inr entry \<Rightarrow>
          (case getitem entry key of
             Inl e \<Rightarrow> Inl e
           | Inr stime \<Rightarrow> scheduletime_to_time stime))"

text \<open>
  \<open>start_time <= zone_ts_time <= end_time\<close> for the bounds of one window; both bounds
  are read before they are compared.
\<close>

definition in_window :: "program \<Rightarrow> string \<Rightarrow> string \<Rightarrow> time \<Rightarrow> error + bool" where
  "in_window prog ps pe t =
     (case period_time prog ps ''starttime'' of
        Inl e \<Rightarrow> Inl e
      | Inr start_time \<Rightarrow>
          (case period_time prog pe ''endtime'' of
             Inl e \<Rightarrow> Inl e
           | Inr end_time \<Rightarrow> Inr (time_le start_time t \<and> time_le t end_time)))"

text \<open>The inner loop over the periods of one day (mode AUTO).\<close>

fun auto_periods :: "program \<Rightarrow> time \<Rightarrow> string list \<Rightarrow> error + bool" where
  "auto_periods prog t [] = Inr False"
| "auto_periods prog t (p # ps) =
     (case in_window prog p p t of
        Inl e \<Rightarrow> Inl e
      | Inr True \<Rightarrow> Inr True
      | Inr False \<Rightarrow> auto_periods prog t ps)"

text \<open>The outer loop over the days of the week; a \<open>return True\<close> leaves it at once.\<close>

fun days_loop :: "zone \<Rightarrow> time \<Rightarrow> string list \<Rightarrow> error + bool" where
  "days_loop z t [] = Inr False"
| "days_loop z t (day # ds) =
     (case zone_program z day of
        Inl e \<Rightarrow> Inl e
      | Inr prog \<Rightarrow>
          if zone_mode z = AUTO then
            (case auto_periods prog t periods of
               Inl e \<Rightarrow> Inl e
             | Inr True \<Rightarrow> Inr True
             | Inr False \<Rightarrow> days_loop z t ds)
          else if zone_mode z = ALL_DAY then
            (case in_window prog ''p1'' ''p3'' t of
               Inl e \<Rightarrow> Inl e
             | Inr True \<Rightarrow> Inr True
             | Inr False \<Rightarrow> days_loop z t ds)
          else days_loop z t ds)"

definition zone_is_scheduled_on :: "int \<Rightarrow> zone \<Rightarrow> error + bool" where
  "zone_is_scheduled_on now z =
     (if zone_mode z = OFF then Inr False
      else if zone_mode z = ON then Inr True
      else days_loop z (zone_ts_time now z) days)"

subsection \<open>Zone activity\<close>

definition zone_boostactivation :: "zone \<Rightarrow> boost_activation option" where
  "zone_boostactivation z = boostActivations z"

definition zone_boost_temperature :: "zone \<Rightarrow> real option" where
  "zone_boost_temperature z =
     (case zone_boostactivation z of
        None \<Rightarrow> None
      | Some boost_activation \<Rightarrow> targettemperature boost_activation)"

definition zone_advance_active :: "zone \<Rightarrow> bool" where
  "zone_advance_active z = (case isadvanceactive z of None \<Rightarrow> False | Some b \<Rightarrow> b)"

definition zone_boost_hours :: "zone \<Rightarrow> int" where
  "zone_boost_hours z =
     (if \<not> zone_is_boost_active z then 0
      else case zone_boostactivation z of
             None \<Rightarrow> 0
           | Some boost_activations \<Rightarrow>
               (case numberofhours boost_activations of None \<Rightarrow> 0 | Some h \<Rightarrow> h))"

definition zone_boost_timestamp :: "zone \<Rightarrow> int option" where
  "zone_boost_timestamp z =
     (if \<not> zone_is_boost_active z then None
      else case zone_boostactivation z of
             None \<Rightarrow> None
           | Some boost_activations \<Rightarrow> activatedon boost_activations)"

definition zone_is_target_temperature_reached :: "zone \<Rightarrow> bool" where
  "zone_is_target_temperature_reached z =
     (zone_current_temperature z \<ge> zone_target_temperature z)"

text \<open>
  \<open>zone_boost_temperature(zone) >= zone_target_temperature(zone)\<close>; comparing \<open>None\<close>
  with a number raises \<open>TypeError\<close>.
\<close>

definition zone_is_target_boost_temperature_reached :: "zone \<Rightarrow> error + bool" where
  "zone_is_target_boost_temperature_reached z =
     (case zone_boost_temperature z of
        None \<Rightarrow> Inl TypeError
      | Some bt \<Rightarrow> Inr (bt \<ge> zone_target_temperature z))"

text \<open>
  \<open>zone_is_active\<close>: \<open>or\<close> and \<open>and\<close> evaluate from the left and stop as soon as the
  result is known, so the schedule is read first and may raise, and the boost
  temperature is only compared when the boost hours are positive. The logging calls of
  the zone functions have no bearing on their results and are left out.
\<close>

definition zone_is_active :: "int \<Rightarrow> zone \<Rightarrow> error + bool" where
  "zone_is_active now z =
     (case zone_is_scheduled_on now z of
        Inl e \<Rightarrow> Inl e
      | Inr scheduled \<Rightarrow>
          if (scheduled \<or> zone_advance_active z) \<and> \<not> zone_is_target_temperature_reached z
          then Inr True
          else if zone_boost_hours z > 0 then
            (case zone_is_target_boost_temperature_reached z of
               Inl e \<Rightarrow> Inl e
             | Inr reached \<Rightarrow> if \<not> reached then Inr True else Inr False)
          else Inr False)"

subsection \<open>Mode mapper\<close>

definition EPH_TO_HA_STATE :: "(string \<times> HVACMode) list" where
  "EPH_TO_HA_STATE =
     [(''AUTO'', HVACMode_HEAT_COOL), (''ON'', HVACMode_HEAT), (''OFF'', HVACMode_OFF)]"

text \<open>\<open>{value: key for key, value in EPH_TO_HA_STATE.items()}\<close>\<close>

definition HA_STATE_TO_EPH :: "HVACMode \<rightharpoonup> string" where
  "HA_STATE_TO_EPH = fold (\<lambda>(key, val) m. m(val \<mapsto> key)) EPH_TO_HA_STATE Map.empty"

text \<open>The \<open>name\<close> of a member of \<open>ZoneMode\<close>.\<close>

fun ZoneMode_name :: "ZoneMode \<Rightarrow> string" where
  "ZoneMode_name AUTO = ''AUTO''"
| "ZoneMode_name ALL_DAY = ''ALL_DAY''"
| "ZoneMode_name ON = ''ON''"
| "ZoneMode_name OFF = ''OFF''"

text \<open>
  \<open>getattr(ZoneMode, name, None)\<close>: the member of that name, the default \<open>None\<close> when
  there is none, and \<open>TypeError\<close> when the attribute name is not a string (here: is
  \<open>None\<close>, from \<open>HA_STATE_TO_EPH.get\<close>); \<open>getattr\<close> checks the name before it looks
  for the attribute, so the default does not apply.
\<close>

definition getattr_ZoneMode :: "string option \<Rightarrow> error + ZoneMode option" where
  "getattr_ZoneMode attr =
     (case attr of
        None \<Rightarrow> Inl TypeError
      | Some n \<Rightarrow> Inr (find (\<lambda>m. ZoneMode_name m = n) [AUTO, ALL_DAY, ON, OFF]))"

definition map_mode_hass_eph :: "HVACMode \<Rightarrow> error + ZoneMode option" where
  "map_mode_hass_eph operation_mode = getattr_ZoneMode (HA_STATE_TO_EPH operation_mode)"

definition map_mode_eph_hass :: "ZoneMode \<Rightarrow> HVACMode" where
  "map_mode_eph_hass operation_mode =
     (case map_of EPH_TO_HA_STATE (ZoneMode_name operation_mode) of
        Some h \<Rightarrow> h
      | None \<Rightarrow> HVACMode_HEAT_COOL)"

subsection \<open>The entity\<close>

text \<open>
  The vendor client is opaque: the model records the calls the entity makes on it, in
  order. The logger is the list of the messages logged by the entity's methods.
\<close>

datatype vendor_call =
  set_mode_by_name string ZoneMode
  | activate_boost_by_name string real
  | deactivate_boost_by_name string
  | set_target_temperture_by_name string real

record EphEmberThermostat =
  ember :: "vendor_call list"
  self_zone_name :: string
  self_zone :: zone
  self_hot_water :: bool
  LOGGER :: "string list"

definition init :: "vendor_call list \<Rightarrow> string list \<Rightarrow> zone \<Rightarrow> EphEmberThermostat" where
  "init e l z =
     \<lparr>ember = e, self_zone_name = zone_name z, self_zone = z,
      self_hot_water = zone_is_hot_water z, LOGGER = l\<rparr>"

text \<open>The property \<open>target_temperature\<close> logs a message each time it is read.\<close>

definition target_temperature :: "EphEmberThermostat \<Rightarrow> EphEmberThermostat \<times> real" where
  "target_temperature self =
     (self\<lparr>LOGGER := LOGGER self @ [''Testing JONAH'']\<rparr>,
      zone_target_temperature (self_zone self))"

definition min_temp :: "EphEmberThermostat \<Rightarrow> real" where
  "min_temp self =
     (if self_hot_water self then zone_target_temperature (self_zone self) else 5.0)"

definition max_temp :: "EphEmberThermostat \<Rightarrow> real" where
  "max_temp self =
     (if self_hot_water self then zone_target_temperature (self_zone self) else 35.0)"

definition set_hvac_mode :: "EphEmberThermostat \<Rightarrow> HVACMode \<Rightarrow> error + EphEmberThermostat" where
  "set_hvac_mode self hvac_mode =
     (case map_mode_hass_eph hvac_mode of
        Inl e \<Rightarrow> Inl e
      | Inr (Some m) \<Rightarrow>
          Inr (self\<lparr>ember := ember self @ [set_mode_by_name (self_zone_name self) m]\<rparr>)
      | Inr None \<Rightarrow>
          Inr (self\<lparr>LOGGER := LOGGER self @ [''Invalid operation mode provided %s'']\<rparr>))"

definition turn_aux_heat_on :: "EphEmberThermostat \<Rightarrow> EphEmberThermostat" where
  "turn_aux_heat_on self =
     self\<lparr>ember := ember self @
       [activate_boost_by_name (self_zone_name self)
          (zone_target_temperature (self_zone self))]\<rparr>"

definition turn_aux_heat_off :: "EphEmberThermostat \<Rightarrow> EphEmberThermostat" where
  "turn_aux_heat_off self =
     self\<lparr>ember := ember self @ [deactivate_boost_by_name (self_zone_name self)]\<rparr>"

text \<open>
  \<open>set_temperature\<close>; the argument is \<open>kwargs.get(ATTR_TEMPERATURE)\<close>, \<open>None\<close> when the
  caller gave no temperature.
\<close>

definition set_temperature :: "EphEmberThermostat \<Rightarrow> real option \<Rightarrow> EphEmberThermostat" where
  "set_temperature self arg =
     (case arg of
        None \<Rightarrow> self
      | Some temperature \<Rightarrow>
          if self_hot_water self then self
          else
            (case target_temperature self of
               (self1, target) \<Rightarrow>
                 if temperature = target then self1
                 else if temperature > max_temp self1 \<or> temperature < min_temp self1
                 then self1
                 else self1\<lparr>ember := ember self1 @
                        [set_target_temperture_by_name (self_zone_name self1) temperature]\<rparr>))"

subsection \<open>Reading the schedule as a whole\<close>










subsection \<open>Example zones\<close>

definition period_of :: "string \<Rightarrow> string \<Rightarrow> period" where
  "period_of s e = [''starttime'' \<mapsto> s, ''endtime'' \<mapsto> e]"

definition program_of :: "period \<Rightarrow> period \<Rightarrow> period \<Rightarrow> program" where
  "program_of a b c = [''p1'' \<mapsto> a, ''p2'' \<mapsto> b, ''p3'' \<mapsto> c]"

text \<open>A week with the same programme every day but for the days listed in \<open>special\<close>.\<close>

definition week_of :: "program \<Rightarrow> (string \<times> program) list \<Rightarrow> string \<rightharpoonup> program" where
  "week_of every special = map_of (special @ map (\<lambda>d. (d, every)) days)"

definition idle_program :: program where
  "idle_program =
     program_of (period_of ''00:00'' ''00:00'') (period_of ''00:00'' ''00:00'')
       (period_of ''00:00'' ''00:00'')"

definition example_zone :: zone where
  "example_zone =
     \<lparr>zone_mode = AUTO, zone_current_temperature = 19.0, zone_target_temperature = 20.0,
      zone_is_boost_active = False, zone_is_hot_water = False, zone_name = ''Hall'',
      timestamp = Some 43200000,
      programmes = Some (week_of idle_program []),
      isadvanceactive = None, boostActivations = None\<rparr>"










text \<open>
  A zone in mode OFF at 19.0 degrees with the target 21.0, boosted for two hours to
  21.0: the boost \<open>turn_aux_heat_on\<close> asks for, whose temperature is the zone's target.
\<close>

definition boosted_zone :: zone where
  "boosted_zone =
     example_zone\<lparr>zone_mode := OFF, zone_target_temperature := 21.0,
       zone_is_boost_active := True,
       boostActivations := Some \<lparr>targettemperature = Some 21.0, numberofhours = Some 2,
                                 activatedon = None\<rparr>\<rparr>"

section \<open>Properties\<close>

subsection \<open>Unfolding sets and helper lemmas\<close>

lemmas parse_defs = scheduletime_to_time_def parse_minute_def is_digit_def digit_val_def



lemmas active_defs = zone_is_active_def zone_advance_active_def zone_boost_hours_def
  zone_boostactivation_def zone_boost_temperature_def zone_is_target_temperature_reached_def
  zone_is_target_boost_temperature_reached_def

lemmas mode_defs = map_mode_hass_eph_def map_mode_eph_hass_def getattr_ZoneMode_def
  HA_STATE_TO_EPH_def EPH_TO_HA_STATE_def

lemma scheduletime_to_time_examples:
  "scheduletime_to_time ''09:00'' = Inr (9, 0)"
  "scheduletime_to_time ''9:5'' = Inr (9, 5)"
  "scheduletime_to_time ''23:59'' = Inr (23, 59)"
  "scheduletime_to_time ''24:00'' = Inl ValueError"
  "scheduletime_to_time ''12:60'' = Inl ValueError"
  "scheduletime_to_time ''12:30:00'' = Inl ValueError"
  by (simp_all add: parse_defs)










lemma set_hvac_mode_unmapped:
  "h \<notin> {HVACMode_HEAT_COOL, HVACMode_HEAT, HVACMode_OFF} \<Longrightarrow>
     set_hvac_mode self h = Inl TypeError"
  by (cases h) (simp_all add: set_hvac_mode_def mode_defs)

lemma set_temperature_LOGGER:
  "LOGGER (set_temperature self (Some t))
     = (if self_hot_water self then LOGGER self else LOGGER self @ [''Testing JONAH''])"
  by (simp add: set_temperature_def target_temperature_def)

subsection \<open>Zone activity\<close>

text \<open>
  C1. A zone whose boost hours are positive and whose current temperature has not
  reached the boost's target temperature is actively heating, whatever the schedule
  says. The code does not do this: \<open>zone_is_target_boost_temperature_reached\<close> compares
  the boost's temperature with the zone's target temperature and never reads the current
  temperature. The zone \<open>boosted_zone\<close> is boosted for 2 hours to 21.0 and is at 19.0, and
  \<open>zone_is_active\<close> returns \<open>False\<close> for it.
\<close>

theorem zone_is_active_boost_below_target_inactive:
  "zone_boost_hours boosted_zone = 2
   \<and> zone_boost_temperature boosted_zone = Some 21.0
   \<and> zone_current_temperature boosted_zone = 19.0
   \<and> zone_target_temperature boosted_zone = 21.0
   \<and> zone_is_scheduled_on 0 boosted_zone = Inr False
   \<and> zone_is_target_boost_temperature_reached boosted_zone = Inr True
   \<and> zone_is_active 0 boosted_zone = Inr False"
  by (simp add: boosted_zone_def example_zone_def active_defs zone_is_scheduled_on_def)



subsection \<open>The schedule\<close>












subsection \<open>Mode mapper\<close>

text \<open>
  C7. Each of the platform modes heat-cool, heat and off is mapped to a vendor mode, and
  that vendor mode is mapped back to the platform mode.
\<close>

theorem mode_round_trip:
  assumes "h \<in> {HVACMode_HEAT_COOL, HVACMode_HEAT, HVACMode_OFF}"
  shows "\<exists>m. map_mode_hass_eph h = Inr (Some m) \<and> map_mode_eph_hass m = h"
  using assms by (auto simp: mode_defs)

theorem mode_round_trip_witness:
  "HVACMode_HEAT \<in> {HVACMode_HEAT_COOL, HVACMode_HEAT, HVACMode_OFF}
   \<and> (\<exists>m. map_mode_hass_eph HVACMode_HEAT = Inr (Some m) \<and> map_mode_eph_hass m = HVACMode_HEAT)
   \<and> map_mode_hass_eph HVACMode_HEAT = Inr (Some ON)
   \<and> map_mode_eph_hass ON = HVACMode_HEAT"
  using mode_round_trip [of HVACMode_HEAT] by (simp add: mode_defs)

subsection \<open>The entity\<close>

text \<open>
  C8. A platform mode outside heat-cool, heat and off given to \<open>set_hvac_mode\<close> is
  logged, nothing is asked of the vendor and nothing is raised. The code does not do
  this: for the mode \<open>cool\<close>, \<open>HA_STATE_TO_EPH.get\<close> gives \<open>None\<close>, \<open>getattr\<close> raises
  \<open>TypeError\<close> on that attribute name, and \<open>set_hvac_mode\<close> raises before its logging
  branch.
\<close>

theorem set_hvac_mode_cool_raises:
  "HVACMode_other ''cool'' \<notin> {HVACMode_HEAT_COOL, HVACMode_HEAT, HVACMode_OFF}
   \<and> HA_STATE_TO_EPH (HVACMode_other ''cool'') = None
   \<and> map_mode_hass_eph (HVACMode_other ''cool'') = Inl TypeError
   \<and> set_hvac_mode (init [] [] example_zone) (HVACMode_other ''cool'') = Inl TypeError"
  by (simp add: set_hvac_mode_def mode_defs)

text \<open>
  C9. A write of the target temperature that equals the current target, or lies outside
  5.0 to 35.0, or is to a hot-water zone, makes no call on the vendor client; any other
  write is forwarded to it as \<open>set_target_temperture_by_name\<close>. The zone snapshot of
  the entity, and with it the stored target temperature, stays as it was in both cases,
  and \<open>set_temperature\<close> raises nothing.
\<close>

theorem set_temperature_rejects_or_forwards:
  "self_zone (set_temperature self (Some t)) = self_zone self
   \<and> (if self_hot_water self \<or> t = zone_target_temperature (self_zone self)
          \<or> t < 5.0 \<or> t > 35.0
       then ember (set_temperature self (Some t)) = ember self
       else ember (set_temperature self (Some t))
              = ember self @ [set_target_temperture_by_name (self_zone_name self) t])"
  by (simp add: set_temperature_def target_temperature_def min_temp_def max_temp_def)

text \<open>A write of 40.0 is rejected and the target stays 20.0; a write of 21.5 is forwarded.\<close>

theorem set_temperature_rejects_or_forwards_witness:
  "ember (set_temperature (init [] [] example_zone) (Some 40.0)) = []
   \<and> zone_target_temperature (self_zone (set_temperature (init [] [] example_zone) (Some 40.0)))
       = 20.0
   \<and> ember (set_temperature (init [] [] example_zone) (Some 21.5))
       = [set_target_temperture_by_name ''Hall'' 21.5]"
  using set_temperature_rejects_or_forwards [of "init [] [] example_zone" "40.0"]
    set_temperature_rejects_or_forwards [of "init [] [] example_zone" "21.5"]
  by (simp add: init_def example_zone_def)

text \<open>
  C10. \<open>turn_aux_heat_on\<close> makes one call on the vendor client, \<open>activate_boost_by_name\<close>
  with the zone's name and the target temperature of the entity's zone snapshot as the
  boost temperature; for an entity built from a zone, that is the zone's target
  temperature.
\<close>

theorem turn_aux_heat_on_boost_target:
  "ember (turn_aux_heat_on self)
     = ember self @ [activate_boost_by_name (self_zone_name self)
                       (zone_target_temperature (self_zone self))]
   \<and> self_zone (turn_aux_heat_on self) = self_zone self
   \<and> ember (turn_aux_heat_on (init e l z))
       = e @ [activate_boost_by_name (zone_name z) (zone_target_temperature z)]"
  by (simp add: turn_aux_heat_on_def init_def)

end
